theory Spec2Isabelle
  imports Complex_Main "HOL-Library.Sublist"
begin

section \<open>Python values and exceptions shared by both drivers\<close>

text \<open>
  Both scripts are Python 3 programs. An exception that leaves the script is a value of
  \<open>py_error\<close>; a computation that may raise returns \<open>py_error + 'a\<close> with the exception
  on the left. \<open>SystemExit n\<close> is what \<open>sys.exit(n)\<close> and a failing
  \<open>ArgumentParser.parse_args\<close> raise.
\<close>

datatype py_error =
    NameError string
  | TypeError
  | IndexError
  | ZeroDivisionError
  | AssertionError string
  | AttributeError string
  | FileNotFoundError string
  | ImportError string
  | SystemExit int

text \<open>
  A Python number is an \<open>int\<close> or a \<open>float\<close>. The model keeps the two apart and
  idealises a float as the exact rational it stands for, so \<open>a / b\<close> on two integers
  is the exact quotient and \<open>int(x)\<close> truncates it towards zero.
\<close>

datatype pynum = PyInt int | PyFloat rat

definition py_truediv :: "int \<Rightarrow> int \<Rightarrow> py_error + rat" where
  "py_truediv a b = (if b = 0 then Inl ZeroDivisionError else Inr (of_int a / of_int b))"

definition py_int :: "rat \<Rightarrow> int" where
  "py_int x = (if 0 \<le> x then \<lfloor>x\<rfloor> else \<lceil>x\<rceil>)"

text \<open>
  \<open>divmod(a, b)\<close> on Python integers: floor division and the remainder with the sign of
  the divisor, which is what \<open>div\<close> and \<open>mod\<close> on \<open>int\<close> compute for a nonzero
  divisor. Python raises on a zero divisor, where HOL returns a fixed value.
\<close>

definition py_divmod :: "int \<Rightarrow> int \<Rightarrow> py_error + int \<times> int" where
  "py_divmod a b = (if b = 0 then Inl ZeroDivisionError else Inr (a div b, a mod b))"

subsection \<open>Calls into the libraries\<close>

text \<open>
  The scripts drive mpi4py and the mpi_learn package, which are not part of them. A
  call into these libraries is recorded as an \<open>event\<close> carrying the arguments the
  script computes for it; what the call returns to the script (the device name, the
  number of training examples, the size and rank of the communicator) is an input of
  the model. The keyword arguments of \<open>Algo(...)\<close> are a record; an argument that a
  call site does not pass is \<open>None\<close>.
\<close>

record algo_call =
  algo_optimizer :: "string option"
  algo_loss :: string
  algo_validate_every :: pynum
  algo_mode :: "string option"
  algo_sync_every :: int
  algo_worker_optimizer :: "string option"
  algo_worker_optimizer_params :: "string option"
  algo_elastic_force :: "rat option"
  algo_elastic_lr :: "rat option"
  algo_elastic_momentum :: "rat option"
  algo_learning_rate :: "rat option"
  algo_momentum :: "rat option"
  algo_kappa :: "rat option"

datatype event =
    Comm_Dup
  | Trace_enable
  | Get_device
  | Setenv string string
  | Keras_session
  | ModelPytorch_init "string option" "string option" int
  | ModelTensorFlow_init "string option" string "string option"
  | Module_builder_taken
  | Module_builder_called "string option" string "string option"
  | H5Data_init int
  | Algo_init algo_call
  | Algo_load string
  | MPIManager_init
  | Train
  | Comm_Split int
  | Allgather int
  | Coordinator_run int int
  | ProcessBlock_run

text \<open>
  A run of a script is the list of events it has issued, in order, and how it ended:
  with an exception or with a value. \<open>and_then\<close> sequences two steps and stops at
  the first exception, keeping the events issued before it.
\<close>

type_synonym 'a run = "event list \<times> (py_error + 'a)"

definition ok :: "'a \<Rightarrow> 'a run" where
  "ok x = ([], Inr x)"

definition emit :: "event \<Rightarrow> unit run" where
  "emit ev = ([ev], Inr ())"

definition lift :: "py_error + 'a \<Rightarrow> 'a run" where
  "lift r = ([], r)"

definition and_then :: "'a run \<Rightarrow> ('a \<Rightarrow> 'b run) \<Rightarrow> 'b run" where
  "and_then m f =
     (case m of
        (t, Inl e) \<Rightarrow> (t, Inl e)
      | (t, Inr x) \<Rightarrow> (case f x of (t', r) \<Rightarrow> (t @ t', r)))"

fun is_split :: "event \<Rightarrow> bool" where
  "is_split (Comm_Split c) = True"
| "is_split ev = False"

fun is_training :: "event \<Rightarrow> bool" where
  "is_training Train = True"
| "is_training ProcessBlock_run = True"
| "is_training (Coordinator_run n k) = True"
| "is_training ev = False"

section \<open>hyperparameter_search_option3.py\<close>

subsection \<open>get_block_num\<close>

text \<open>
  The function reads the rank from the communicator and takes the block size; the model
  takes the rank itself.
\<close>

definition get_block_num :: "int \<Rightarrow> int \<Rightarrow> py_error + int" where
  "get_block_num rank block_size =
     (if rank = 0 then Inr 0
      else case py_divmod (rank - 1) block_size of
             Inl e \<Rightarrow> Inl e
           | Inr (block_num, rank_in_block) \<Rightarrow> Inr (block_num + 1))"

text \<open>
  \<open>comm_world.Split(block_num)\<close> groups the ranks of the world communicator by the colour
  they pass: the members of block \<open>b\<close> in a world of \<open>size\<close> ranks are the ranks
  \<open>0 .. size - 1\<close> whose \<open>get_block_num\<close> is \<open>b\<close>, in rank order.
\<close>

definition block_members :: "int \<Rightarrow> int \<Rightarrow> int \<Rightarrow> int list" where
  "block_members world_size block_size b =
     filter (\<lambda>r. get_block_num r block_size = Inr b) [0 .. world_size - 1]"

subsection \<open>check_sanity\<close>

text \<open>
  The parsed command line of the search script, one field per option of
  \<open>make_parser\<close>. The script is run by the interpreter named in its first line, without
  \<open>-O\<close>, so an \<open>assert\<close> whose condition is false raises.
\<close>

record hs_args =
  hs_verbose :: bool
  hs_batch :: int
  hs_epochs :: int
  hs_optimizer :: string
  hs_loss :: string
  hs_early_stopping :: "int option"
  hs_sync_every :: int
  hs_block_size :: int
  hs_num_iterations :: int

definition check_sanity :: "hs_args \<Rightarrow> py_error + unit" where
  "check_sanity args =
     (if hs_block_size args > 1 then Inr ()
      else Inl (AssertionError ''Block size must be at least 2 (master + worker)''))"

subsection \<open>The main program of the search script\<close>

text \<open>
  \<open>world_size\<close> and \<open>rank\<close> are what \<open>comm_world.Get_size()\<close> and
  \<open>comm_world.Get_rank()\<close> return, \<open>count_data\<close> is what \<open>data.count_data()\<close>
  returns. The lists of input files (a \<open>glob\<close> of a fixed directory) and the printed
  messages play no part in the control flow and are left out.
\<close>

definition hs_validate_every :: "int \<Rightarrow> int \<Rightarrow> py_error + pynum" where
  "hs_validate_every count_data batch =
     (case py_truediv count_data batch of
        Inl e \<Rightarrow> Inl e
      | Inr q \<Rightarrow> Inr (PyFloat q))"

definition hs_algo_call :: "hs_args \<Rightarrow> pynum \<Rightarrow> algo_call" where
  "hs_algo_call args validate_every =
     \<lparr> algo_optimizer = Some (hs_optimizer args), algo_loss = hs_loss args,
       algo_validate_every = validate_every, algo_mode = None,
       algo_sync_every = hs_sync_every args,
       algo_worker_optimizer = None, algo_worker_optimizer_params = None,
       algo_elastic_force = None, algo_elastic_lr = None, algo_elastic_momentum = None,
       algo_learning_rate = None, algo_momentum = None, algo_kappa = None \<rparr>"

definition hs_block :: "hs_args \<Rightarrow> int \<Rightarrow> int \<Rightarrow> int \<Rightarrow> int \<Rightarrow> unit run" where
  "hs_block args num_blocks block_num rank count_data =
     and_then (emit Get_device) (\<lambda>_.
     and_then (emit (Comm_Split block_num)) (\<lambda>_.
     and_then (emit (Allgather block_num)) (\<lambda>_.
       if block_num = 0
       then emit (Coordinator_run num_blocks (hs_num_iterations args))
       else
         and_then (emit (H5Data_init (hs_batch args))) (\<lambda>_.
         and_then (lift (hs_validate_every count_data (hs_batch args))) (\<lambda>validate_every.
         and_then (emit (Algo_init (hs_algo_call args validate_every))) (\<lambda>_.
           emit ProcessBlock_run))))))"

definition hs_main :: "hs_args \<Rightarrow> int \<Rightarrow> int \<Rightarrow> int \<Rightarrow> unit run" where
  "hs_main args world_size rank count_data =
     and_then (lift (check_sanity args)) (\<lambda>_.
     and_then (emit Comm_Dup) (\<lambda>_.
     and_then (lift (py_divmod (world_size - 1) (hs_block_size args))) (\<lambda>(num_blocks, left_over).
       if left_over \<noteq> 0
       then (let num_blocks = num_blocks + 1 in lift (Inl (SystemExit 1)))
       else
         and_then (lift (get_block_num rank (hs_block_size args))) (\<lambda>block_num.
           hs_block args num_blocks block_num rank count_data))))"


section \<open>TrainingDriver.py\<close>

subsection \<open>String operations the driver uses\<close>

text \<open>\<open>sub in s\<close> on strings: \<open>sub\<close> occurs in \<open>s\<close> as a contiguous substring.\<close>

fun py_in :: "string \<Rightarrow> string \<Rightarrow> bool" where
  "py_in sub [] = (sub = [])"
| "py_in sub (c # cs) = (prefix sub (c # cs) \<or> py_in sub cs)"

text \<open>
  \<open>s.replace(old, '')\<close>: every occurrence of \<open>old\<close>, found from the left without
  overlap, is removed; an empty \<open>old\<close> leaves the string as it is.
\<close>

fun py_remove :: "string \<Rightarrow> string \<Rightarrow> string" where
  "py_remove old [] = []"
| "py_remove old (c # cs) =
     (if old \<noteq> [] \<and> prefix old (c # cs) then py_remove old (drop (length old - 1) cs)
      else c # py_remove old cs)"

text \<open>
  \<open>str.strip()\<close> removes leading and trailing whitespace; among the characters below
  256 these are the ones listed.
\<close>

definition py_isspace :: "char \<Rightarrow> bool" where
  "py_isspace c =
     (c \<in> set [CHR 0x09, CHR 0x0A, CHR 0x0B, CHR 0x0C, CHR 0x0D, CHR 0x1C, CHR 0x1D,
               CHR 0x1E, CHR 0x1F, CHR 0x20, CHR 0x85, CHR 0xA0])"

definition py_strip :: "string \<Rightarrow> string" where
  "py_strip s = rev (dropWhile py_isspace (rev (dropWhile py_isspace s)))"

text \<open>\<open>file.readlines()\<close>: the text cut after every newline, the newline kept.\<close>

fun py_readlines_from :: "string \<Rightarrow> string \<Rightarrow> string list" where
  "py_readlines_from cur [] = (if cur = [] then [] else [cur])"
| "py_readlines_from cur (c # cs) =
     (if c = CHR 0x0A then (cur @ [c]) # py_readlines_from [] cs
      else py_readlines_from (cur @ [c]) cs)"

definition py_readlines :: "string \<Rightarrow> string list" where
  "py_readlines s = py_readlines_from [] s"

text \<open>
  \<open>str.splitlines()\<close>: the text cut at every line boundary, the boundary dropped; a
  carriage return followed by a line feed is one boundary, and text that ends in a
  boundary has no empty last line.
\<close>

definition py_linebreak :: "char \<Rightarrow> bool" where
  "py_linebreak c =
     (c \<in> set [CHR 0x0A, CHR 0x0B, CHR 0x0C, CHR 0x0D, CHR 0x1C, CHR 0x1D, CHR 0x1E,
               CHR 0x85])"

fun py_splitlines_from :: "string \<Rightarrow> string \<Rightarrow> string list" where
  "py_splitlines_from cur [] = (if cur = [] then [] else [cur])"
| "py_splitlines_from cur [c] =
     (if py_linebreak c then [cur] else [cur @ [c]])"
| "py_splitlines_from cur (c # d # cs) =
     (if c = CHR 0x0D \<and> d = CHR 0x0A then cur # py_splitlines_from [] cs
      else if py_linebreak c then cur # py_splitlines_from [] (d # cs)
      else py_splitlines_from (cur @ [c]) (d # cs))"

definition py_splitlines :: "string \<Rightarrow> string list" where
  "py_splitlines s = py_splitlines_from [] s"

text \<open>
  \<open>re.sub(r'\.algo$', '', s)\<close>: \<open>$\<close> matches at the end of the string and just
  before a newline that ends the string, so the suffix is removed in both places and
  nowhere else.
\<close>

definition re_sub_algo :: "string \<Rightarrow> string" where
  "re_sub_algo s =
     (if suffix ''.algo'' s then take (length s - 5) s
      else if suffix (''.algo'' @ [CHR 0x0A]) s then take (length s - 6) s @ [CHR 0x0A]
      else s)"

text \<open>The truth value of an optional string: \<open>None\<close> and the empty string are false.\<close>

definition py_truthy :: "string option \<Rightarrow> bool" where
  "py_truthy v = (case v of None \<Rightarrow> False | Some s \<Rightarrow> s \<noteq> [])"

subsection \<open>Command line and environment\<close>

text \<open>
  The options of the driver that its own code reads; the remaining options are handed
  to the library unchanged. \<open>td_model\<close>, \<open>td_train_data\<close>, \<open>td_val_data\<close> and
  \<open>td_restore\<close> are \<open>None\<close> when the option is absent.
\<close>

record td_args =
  td_trace :: bool
  td_profile :: bool
  td_backend :: string
  td_model :: "string option"
  td_train_data :: "string option"
  td_val_data :: "string option"
  td_batch :: int
  td_optimizer :: string
  td_loss :: string
  td_worker_optimizer :: string
  td_worker_optimizer_params :: string
  td_sync_every :: int
  td_mode :: string
  td_elastic_force :: rat
  td_elastic_lr :: rat
  td_elastic_momentum :: rat
  td_gem_lr :: rat
  td_gem_momentum :: rat
  td_gem_kappa :: rat
  td_restore :: "string option"

text \<open>
  A module imported from a \<open>.py\<close> model file: whether it has an attribute
  \<open>builder\<close>, and what its \<open>get_train\<close> and \<open>get_val\<close> return (\<open>None\<close> when
  the module has no such function).
\<close>

record py_module =
  mod_has_builder :: bool
  mod_get_train :: "string list option"
  mod_get_val :: "string list option"

text \<open>
  What the driver reads from outside: the communicator, the regular files and their
  text, the outcome of importing a module by name, the device \<open>get_device\<close> returns
  and the number of training examples \<open>count_data\<close> returns.
\<close>

record td_env =
  env_world_size :: int
  env_rank :: int
  env_files :: "string \<rightharpoonup> string"
  env_import :: "string \<Rightarrow> py_error + py_module"
  env_device :: string
  env_count_data :: int

text \<open>
  \<open>parse_args\<close> rejects a value outside the \<open>choices\<close> of \<open>--backend\<close> and
  \<open>--mode\<close>: argparse prints the usage and exits with status 2.
\<close>

definition backend_choices :: "string list" where
  "backend_choices = [''keras'', ''torch'']"

definition mode_choices :: "string list" where
  "mode_choices = [''sgd'', ''easgd'', ''gem'']"

definition parse_args :: "td_args \<Rightarrow> py_error + td_args" where
  "parse_args given =
     (if td_backend given \<notin> set backend_choices then Inl (SystemExit 2)
      else if td_mode given \<notin> set mode_choices then Inl (SystemExit 2)
      else Inr given)"

subsection \<open>Backend, model module and input lists (lines 93 to 113)\<close>

text \<open>
  \<open>'torch' in args.model\<close> and \<open>'.py' in args.model\<close> raise a \<open>TypeError\<close> when
  \<open>--model\<close> is absent, since \<open>args.model\<close> is then \<open>None\<close>.
\<close>

definition select_backend :: "td_args \<Rightarrow> py_error + string" where
  "select_backend args =
     (case td_model args of
        None \<Rightarrow> Inl TypeError
      | Some model \<Rightarrow> Inr (if py_in ''torch'' model then ''torch'' else td_backend args))"

definition import_model :: "td_args \<Rightarrow> td_env \<Rightarrow> py_error + py_module option" where
  "import_model args env =
     (case td_model args of
        None \<Rightarrow> Inl TypeError
      | Some model \<Rightarrow>
          if py_in ''.py'' model
          then (case env_import env (py_remove ''.py'' model) of
                  Inl e \<Rightarrow> Inl e
                | Inr m \<Rightarrow> Inr (Some m))
          else Inr None)"

text \<open>
  The list of training (validation) files: read from the file named on the command
  line, or asked from the model module, or left unbound (\<open>None\<close>) when there is
  neither; the driver then only logs a message.
\<close>

definition load_list ::
  "td_env \<Rightarrow> string option \<Rightarrow> py_module option \<Rightarrow> (py_module \<Rightarrow> string list option) \<Rightarrow>
   string \<Rightarrow> py_error + string list option" where
  "load_list env file m_module getter getter_name =
     (if py_truthy file
      then (case file of
              None \<Rightarrow> Inr None
            | Some path \<Rightarrow>
                (case env_files env path of
                   None \<Rightarrow> Inl (FileNotFoundError path)
                 | Some text \<Rightarrow> Inr (Some (map py_strip (py_readlines text)))))
      else (case m_module of
              Some m \<Rightarrow>
                (case getter m of
                   None \<Rightarrow> Inl (AttributeError getter_name)
                 | Some l \<Rightarrow> Inr (Some l))
            | None \<Rightarrow> Inr None))"

subsection \<open>Restoring (lines 119 to 131)\<close>

text \<open>
  \<open>resolve_restore\<close> is lines 124 to 127: the path without its \<open>.algo\<close> suffix, replaced
  by the last line of the file \<open>path.latest\<close> when that file exists. Indexing the
  empty list of lines of an empty file raises \<open>IndexError\<close>.
\<close>

definition resolve_restore :: "td_env \<Rightarrow> string \<Rightarrow> py_error + string" where
  "resolve_restore env restore =
     (let stripped = re_sub_algo restore
      in case env_files env (stripped @ ''.latest'') of
           None \<Rightarrow> Inr stripped
         | Some text \<Rightarrow>
             (case py_splitlines text of
                [] \<Rightarrow> Inl IndexError
              | l # ls \<Rightarrow> Inr (last (l # ls))))"

text \<open>
  \<open>restore_weights\<close> is lines 128 to 131, with \<open>model_weights\<close> being \<open>None\<close> before
  them. \<open>model_weights += '_w'\<close> on \<open>None\<close> raises \<open>TypeError\<close>.
\<close>

definition restore_weights :: "td_env \<Rightarrow> bool \<Rightarrow> string \<Rightarrow> py_error + string option" where
  "restore_weights env use_torch restore =
     (let model_weights =
            (if use_torch \<and> env_files env (restore @ ''.model'') \<noteq> None
             then Some (restore @ ''.model'') else None)
      in if use_torch
         then (case model_weights of
                 None \<Rightarrow> Inl TypeError
               | Some w \<Rightarrow> Inr (Some (w @ ''_w'')))
         else Inr model_weights)"

text \<open>
  The whole block: the new value of \<open>args.restore\<close> and \<open>model_weights\<close>. The block is
  skipped when \<open>--restore\<close> is absent or empty.
\<close>

definition restore_block ::
  "td_args \<Rightarrow> td_env \<Rightarrow> bool \<Rightarrow> py_error + string option \<times> string option" where
  "restore_block args env use_torch =
     (case td_restore args of
        None \<Rightarrow> Inr (None, None)
      | Some given \<Rightarrow>
          if given = [] then Inr (Some given, None)
          else (case resolve_restore env given of
                  Inl e \<Rightarrow> Inl e
                | Inr restore \<Rightarrow>
                    (case restore_weights env use_torch restore of
                       Inl e \<Rightarrow> Inl e
                     | Inr model_weights \<Rightarrow> Inr (Some restore, model_weights))))"

subsection \<open>Device and model builder (lines 135 to 186)\<close>

definition visible_device :: "string \<Rightarrow> string" where
  "visible_device device = (if py_in ''gpu'' device then [last device] else [])"

text \<open>
  The probe \<open>m_module and hasttar("builder", m_module)\<close>: no probe is made when
  \<open>m_module\<close> is \<open>None\<close>; a module object is true, so for a module the second
  operand is evaluated, and \<open>hasttar\<close> is a name that the script neither defines nor
  imports and that is not a builtin.
\<close>

definition probe_builder :: "py_module option \<Rightarrow> py_error + bool" where
  "probe_builder m_module =
     (case m_module of
        None \<Rightarrow> Inr False
      | Some m \<Rightarrow> Inl (NameError ''hasttar''))"

text \<open>Both branches append the suffix of the backend to the name of the optimizer.\<close>

definition with_suffix :: "string \<Rightarrow> string \<Rightarrow> string" where
  "with_suffix opt suf = (if suffix suf opt then opt else opt @ suf)"

definition torch_builder ::
  "td_args \<Rightarrow> string \<Rightarrow> py_module option \<Rightarrow> string option \<Rightarrow> string run" where
  "torch_builder args device m_module model_weights =
     and_then (emit (Setenv ''CUDA_VISIBLE_DEVICES'' (visible_device device))) (\<lambda>_.
     and_then (lift (probe_builder m_module)) (\<lambda>has_builder.
     and_then (if has_builder then emit Module_builder_taken
               else emit (ModelPytorch_init (td_model args) model_weights
                            (if py_in ''gpu'' device then 1 else 0))) (\<lambda>_.
       ok (with_suffix (td_optimizer args) ''torch''))))"

definition tf_builder ::
  "td_args \<Rightarrow> string \<Rightarrow> py_module option \<Rightarrow> string option \<Rightarrow> string run" where
  "tf_builder args device m_module model_weights =
     and_then (emit (Setenv ''CUDA_VISIBLE_DEVICES'' (visible_device device))) (\<lambda>_.
     and_then (emit (Setenv ''KERAS_BACKEND'' ''tensorflow'')) (\<lambda>_.
     and_then (emit Keras_session) (\<lambda>_.
     and_then (lift (probe_builder m_module)) (\<lambda>has_builder.
     and_then (if has_builder
               then emit (Module_builder_called (td_model args)
                            (if py_in ''gpu'' device then ''gpu0'' else []) model_weights)
               else emit (ModelTensorFlow_init (td_model args)
                            (if py_in ''gpu'' device then ''gpu0'' else []) model_weights)) (\<lambda>_.
     and_then (if td_profile args then emit (Setenv ''CUDA_LAUNCH_BLOCKING'' ''1'')
               else ok ()) (\<lambda>_.
       ok (with_suffix (td_optimizer args) ''tf'')))))))"

subsection \<open>The algorithm object (lines 189 to 221)\<close>

definition td_validate_every :: "int \<Rightarrow> int \<Rightarrow> py_error + pynum" where
  "td_validate_every count_data batch =
     (case py_truediv count_data batch of
        Inl e \<Rightarrow> Inl e
      | Inr q \<Rightarrow> Inr (PyInt (py_int q)))"

text \<open>
  \<open>args.elastic_force/(comm.Get_size()-1)\<close>: a float divided by an integer, which
  raises on a communicator of a single process.
\<close>

definition easgd_elastic_force :: "rat \<Rightarrow> int \<Rightarrow> py_error + rat" where
  "easgd_elastic_force elastic_force world_size =
     (if world_size - 1 = 0 then Inl ZeroDivisionError
      else Inr (elastic_force / of_int (world_size - 1)))"

text \<open>
  The three constructor calls. For a mode that is none of the three the driver logs a
  message and binds no \<open>algo\<close>: the result is \<open>None\<close>.
\<close>

definition make_algo :: "td_args \<Rightarrow> string \<Rightarrow> pynum \<Rightarrow> int \<Rightarrow> py_error + algo_call option" where
  "make_algo args opt validate_every world_size =
     (if td_mode args = ''easgd''
      then (case easgd_elastic_force (td_elastic_force args) world_size of
              Inl e \<Rightarrow> Inl e
            | Inr force \<Rightarrow>
                Inr (Some
                  \<lparr> algo_optimizer = None, algo_loss = td_loss args,
                    algo_validate_every = validate_every, algo_mode = Some ''easgd'',
                    algo_sync_every = td_sync_every args,
                    algo_worker_optimizer = Some (td_worker_optimizer args),
                    algo_worker_optimizer_params = Some (td_worker_optimizer_params args),
                    algo_elastic_force = Some force,
                    algo_elastic_lr = Some (td_elastic_lr args),
                    algo_elastic_momentum = Some (td_elastic_momentum args),
                    algo_learning_rate = None, algo_momentum = None, algo_kappa = None \<rparr>))
      else if td_mode args = ''gem''
      then Inr (Some
             \<lparr> algo_optimizer = Some ''gem'', algo_loss = td_loss args,
               algo_validate_every = validate_every, algo_mode = Some ''gem'',
               algo_sync_every = td_sync_every args,
               algo_worker_optimizer = Some (td_worker_optimizer args),
               algo_worker_optimizer_params = Some (td_worker_optimizer_params args),
               algo_elastic_force = None, algo_elastic_lr = None,
               algo_elastic_momentum = None,
               algo_learning_rate = Some (td_gem_lr args),
               algo_momentum = Some (td_gem_momentum args),
               algo_kappa = Some (td_gem_kappa args) \<rparr>)
      else if td_mode args = ''sgd''
      then Inr (Some
             \<lparr> algo_optimizer = Some opt, algo_loss = td_loss args,
               algo_validate_every = validate_every, algo_mode = None,
               algo_sync_every = td_sync_every args,
               algo_worker_optimizer = Some (td_worker_optimizer args),
               algo_worker_optimizer_params = Some (td_worker_optimizer_params args),
               algo_elastic_force = None, algo_elastic_lr = None,
               algo_elastic_momentum = None,
               algo_learning_rate = None, algo_momentum = None, algo_kappa = None \<rparr>)
      else Inr None)"

text \<open>
  \<open>algo.load(args.restore)\<close> is reached when \<open>args.restore\<close>, as the restoring block
  left it, is true; with no \<open>algo\<close> bound the name lookup fails.
\<close>

definition load_algo :: "algo_call option \<Rightarrow> string option \<Rightarrow> unit run" where
  "load_algo algo restore =
     (case restore of
        None \<Rightarrow> ok ()
      | Some r \<Rightarrow>
          if r = [] then ok ()
          else (case algo of
                  None \<Rightarrow> lift (Inl (NameError ''algo''))
                | Some call \<Rightarrow> emit (Algo_load r)))"

text \<open>
  Lines 224 to 240. The arguments of \<open>MPIManager(...)\<close> are evaluated in the order
  written, \<open>algo\<close> before \<open>val_list\<close>; an unbound one fails the call before the manager
  exists. Rank 0 then starts the training.
\<close>

definition start_manager :: "algo_call option \<Rightarrow> string list option \<Rightarrow> int \<Rightarrow> unit run" where
  "start_manager algo val_list rank =
     (case algo of
        None \<Rightarrow> lift (Inl (NameError ''algo''))
      | Some call \<Rightarrow>
          (case val_list of
             None \<Rightarrow> lift (Inl (NameError ''val_list''))
           | Some v \<Rightarrow>
               and_then (emit MPIManager_init) (\<lambda>_.
                 if rank = 0 then emit Train else ok ())))"

definition algo_phase ::
  "td_args \<Rightarrow> td_env \<Rightarrow> string \<Rightarrow> string list option \<Rightarrow> string list option \<Rightarrow>
   string option \<Rightarrow> unit run" where
  "algo_phase args env opt train_list val_list restore =
     and_then (emit (H5Data_init (td_batch args))) (\<lambda>_.
     and_then (lift (case train_list of
                       None \<Rightarrow> Inl (NameError ''train_list'')
                     | Some l \<Rightarrow> Inr l)) (\<lambda>_.
     and_then (lift (td_validate_every (env_count_data env) (td_batch args))) (\<lambda>validate_every.
     and_then (lift (make_algo args opt validate_every (env_world_size env))) (\<lambda>algo.
     and_then (case algo of None \<Rightarrow> ok () | Some call \<Rightarrow> emit (Algo_init call)) (\<lambda>_.
     and_then (load_algo algo restore) (\<lambda>_.
       start_manager algo val_list (env_rank env)))))))"

subsection \<open>The main program of the driver (lines 89 to 240)\<close>

text \<open>
  \<open>td_run\<close> is the driver after the command line has been parsed, up to the end of the
  training on rank 0. Writing the history file and the final barrier follow it and are
  not modelled.
\<close>

definition td_run :: "td_args \<Rightarrow> td_env \<Rightarrow> unit run" where
  "td_run args env =
     and_then (lift (select_backend args)) (\<lambda>a_backend.
     and_then (lift (import_model args env)) (\<lambda>m_module.
     and_then (lift (load_list env (td_train_data args) m_module mod_get_train ''get_train''))
       (\<lambda>train_list.
     and_then (lift (load_list env (td_val_data args) m_module mod_get_val ''get_val''))
       (\<lambda>val_list.
     and_then (emit Comm_Dup) (\<lambda>_.
     and_then (if td_trace args then emit Trace_enable else ok ()) (\<lambda>_.
     and_then (lift (restore_block args env (a_backend \<noteq> ''keras''))) (\<lambda>(restore, model_weights).
     and_then (emit Get_device) (\<lambda>_.
     and_then (if a_backend \<noteq> ''keras''
               then torch_builder args (env_device env) m_module model_weights
               else tf_builder args (env_device env) m_module model_weights) (\<lambda>opt.
       algo_phase args env opt train_list val_list restore)))))))))"

definition td_main :: "td_args \<Rightarrow> td_env \<Rightarrow> unit run" where
  "td_main given env = and_then (lift (parse_args given)) (\<lambda>args. td_run args env)"

section \<open>Observations on runs\<close>

text \<open>
  Which library a call belongs to: the calls that bring up TensorFlow, the calls that
  build a PyTorch model, the calls that produce a model builder, and the calls on the
  algorithm object and the manager.
\<close>

fun is_tensorflow :: "event \<Rightarrow> bool" where
  "is_tensorflow Keras_session = True"
| "is_tensorflow (ModelTensorFlow_init source device weights) = True"
| "is_tensorflow (Module_builder_called source device weights) = True"
| "is_tensorflow ev = False"

fun is_pytorch :: "event \<Rightarrow> bool" where
  "is_pytorch (ModelPytorch_init source weights gpus) = True"
| "is_pytorch Module_builder_taken = True"
| "is_pytorch ev = False"

fun is_builder :: "event \<Rightarrow> bool" where
  "is_builder (ModelPytorch_init source weights gpus) = True"
| "is_builder (ModelTensorFlow_init source device weights) = True"
| "is_builder Module_builder_taken = True"
| "is_builder (Module_builder_called source device weights) = True"
| "is_builder ev = False"

fun is_algo :: "event \<Rightarrow> bool" where
  "is_algo (Algo_init call) = True"
| "is_algo (Algo_load ident) = True"
| "is_algo ev = False"

fun is_manager :: "event \<Rightarrow> bool" where
  "is_manager MPIManager_init = True"
| "is_manager ev = False"

text \<open>A run never issues a call of a given kind; a run ends in an exception.\<close>

definition never :: "(event \<Rightarrow> bool) \<Rightarrow> 'a run \<Rightarrow> bool" where
  "never P r = (\<not> list_ex P (fst r))"

definition fails :: "'a run \<Rightarrow> bool" where
  "fails r = isl (snd r)"


section \<open>Sample command lines and environments\<close>

text \<open>
  The search script with the defaults of its parser and \<open>--block-size 3\<close>.
\<close>

definition hs_sample :: hs_args where
  "hs_sample =
     \<lparr> hs_verbose = False, hs_batch = 100, hs_epochs = 10, hs_optimizer = ''adam'',
       hs_loss = ''binary_crossentropy'', hs_early_stopping = None, hs_sync_every = 1,
       hs_block_size = 3, hs_num_iterations = 10 \<rparr>"

text \<open>
  The driver with the defaults of its parser, a model given as a JSON file, the two
  input lists given as files, \<open>--mode easgd\<close> and \<open>--restore ck.algo\<close>.
\<close>

definition td_sample :: td_args where
  "td_sample =
     \<lparr> td_trace = False, td_profile = False, td_backend = ''keras'',
       td_model = Some ''model.json'', td_train_data = Some ''train.txt'',
       td_val_data = Some ''val.txt'', td_batch = 100, td_optimizer = ''adam'',
       td_loss = ''binary_crossentropy'', td_worker_optimizer = ''sgd'',
       td_worker_optimizer_params = ''{}'', td_sync_every = 1, td_mode = ''easgd'',
       td_elastic_force = 9 / 10, td_elastic_lr = 1, td_elastic_momentum = 0,
       td_gem_lr = 1 / 100, td_gem_momentum = 9 / 10, td_gem_kappa = 2,
       td_restore = Some ''ck.algo'' \<rparr>"

text \<open>
  A module with a \<open>builder\<close> attribute and both list functions, as a \<open>.py\<close> model
  file provides it.
\<close>

definition sample_module :: py_module where
  "sample_module =
     \<lparr> mod_has_builder = True, mod_get_train = Some [''a.h5''],
       mod_get_val = Some [''c.h5''] \<rparr>"

text \<open>
  Four processes, this one being rank 0; the two list files; a pointer file
  \<open>ck.latest\<close> of two lines; no weight snapshot \<open>ck-10.model\<close>; every import
  succeeds with \<open>sample_module\<close>; 250 training examples.
\<close>

definition sample_files :: "string \<rightharpoonup> string" where
  "sample_files =
     [''train.txt'' \<mapsto> ''a.h5'' @ [CHR 0x0A] @ ''b.h5'' @ [CHR 0x0A],
      ''val.txt'' \<mapsto> ''c.h5'' @ [CHR 0x0A],
      ''ck.latest'' \<mapsto> ''ck-5'' @ [CHR 0x0A] @ ''ck-10'' @ [CHR 0x0A]]"

definition td_sample_env :: td_env where
  "td_sample_env =
     \<lparr> env_world_size = 4, env_rank = 0, env_files = sample_files,
       env_import = (\<lambda>name. Inr sample_module), env_device = ''gpu0'',
       env_count_data = 250 \<rparr>"

section \<open>Evaluating runs\<close>

lemmas run_defs = and_then_def lift_def emit_def ok_def

lemma fst_and_then:
  "fst (and_then m f) = fst m @ (case snd m of Inl e \<Rightarrow> [] | Inr x \<Rightarrow> fst (f x))"
  by (simp add: and_then_def split: prod.splits sum.splits)

lemma snd_and_then:
  "snd (and_then m f) = (case snd m of Inl e \<Rightarrow> Inl e | Inr x \<Rightarrow> snd (f x))"
  by (simp add: and_then_def split: prod.splits sum.splits)

lemma never_lift: "never P (lift r)"
  by (simp add: never_def lift_def)

lemma never_ok: "never P (ok x)"
  by (simp add: never_def ok_def)

lemma never_emit: "never P (emit ev) = (\<not> P ev)"
  by (simp add: never_def emit_def)

lemma never_and_then:
  assumes "never P m" and "\<And>x. snd m = Inr x \<Longrightarrow> never P (f x)"
  shows "never P (and_then m f)"
proof (cases "snd m")
  case (Inl e)
  then show ?thesis
    using assms(1) by (simp add: never_def fst_and_then)
next
  case (Inr x)
  then show ?thesis
    using assms(1) assms(2) [OF Inr] by (simp add: never_def fst_and_then)
qed

lemma fails_and_then:
  assumes "\<And>x. snd m = Inr x \<Longrightarrow> fails (f x)"
  shows "fails (and_then m f)"
  using assms by (auto simp: fails_def snd_and_then split: sum.splits)

lemma fails_first: "fails m \<Longrightarrow> fails (and_then m f)"
  by (auto simp: fails_def snd_and_then split: sum.splits)

lemma snd_lift: "snd (lift r) = r" by (simp add: lift_def)
lemma snd_emit: "snd (emit ev) = Inr ()" by (simp add: emit_def)
lemma snd_ok: "snd (ok x) = Inr x" by (simp add: ok_def)

lemmas never_simps = never_lift never_ok never_emit snd_lift snd_emit snd_ok

lemma and_then_lift_Inl: "and_then (lift (Inl e)) f = ([], Inl e)"
  by (simp add: and_then_def lift_def)

lemma and_then_lift_Inr: "and_then (lift (Inr x)) f = f x"
  by (simp add: and_then_def lift_def split: prod.splits)

lemma never_nil: "never P ([], r)"
  by (simp add: never_def)

lemma fails_Inl: "fails (t, Inl e)"
  by (simp add: fails_def)


lemma in_and_then_iff:
  "(ev \<in> set (fst (and_then m f))) =
     (ev \<in> set (fst m) \<or> (\<exists>x. snd m = Inr x \<and> ev \<in> set (fst (f x))))"
  by (auto simp: fst_and_then split: sum.splits)

lemma fst_lift: "fst (lift r) = []" by (simp add: lift_def)
lemma fst_emit: "fst (emit ev) = [ev]" by (simp add: emit_def)
lemma fst_ok: "fst (ok x) = []" by (simp add: ok_def)

lemmas in_run_simps = in_and_then_iff fst_lift fst_emit fst_ok snd_lift snd_emit snd_ok


section \<open>Properties of the search script\<close>

subsection \<open>Blocks partition the ranks\<close>

lemma div_pos_characterisation:
  fixes a d q :: int
  assumes "0 < d"
  shows "(a div d = q) = (q * d \<le> a \<and> a < (q + 1) * d)"
proof
  assume h: "a div d = q"
  have e: "a = q * d + a mod d"
    using h by (metis div_mult_mod_eq)
  have "0 \<le> a mod d" and "a mod d < d"
    using assms by simp_all
  then show "q * d \<le> a \<and> a < (q + 1) * d"
    using e by (simp add: algebra_simps)
next
  assume h: "q * d \<le> a \<and> a < (q + 1) * d"
  have "a = d * q + (a - q * d)"
    by (simp add: algebra_simps)
  moreover have "0 \<le> a - q * d"
    using h by simp
  moreover have "a - q * d < d"
    using h by (simp add: algebra_simps)
  ultimately show "a div d = q"
    by (rule int_div_pos_eq)
qed

lemma get_block_num_pos:
  assumes "1 \<le> block_size" and "1 \<le> r"
  shows "get_block_num r block_size = Inr (1 + (r - 1) div block_size)"
  using assms by (simp add: get_block_num_def py_divmod_def)

lemma get_block_num_eq_iff:
  assumes "1 \<le> block_size" and "1 \<le> b" and "0 \<le> r"
  shows "(get_block_num r block_size = Inr b) =
           ((b - 1) * block_size + 1 \<le> r \<and> r \<le> b * block_size)"
proof (cases "r = 0")
  case True
  have "0 \<le> (b - 1) * block_size"
    using assms by simp
  then have "\<not> (b - 1) * block_size + 1 \<le> 0"
    by linarith
  then show ?thesis
    using True assms by (simp add: get_block_num_def)
next
  case False
  then have r1: "1 \<le> r"
    using assms by simp
  have "(get_block_num r block_size = Inr b) = ((r - 1) div block_size = b - 1)"
    using get_block_num_pos [OF assms(1) r1] by auto
  also have "\<dots> = ((b - 1) * block_size \<le> r - 1 \<and> r - 1 < (b - 1 + 1) * block_size)"
    using assms(1) by (intro div_pos_characterisation) simp
  also have "\<dots> = ((b - 1) * block_size + 1 \<le> r \<and> r \<le> b * block_size)"
    by auto
  finally show ?thesis .
qed

lemma block_members_set:
  assumes "1 \<le> block_size" and "1 \<le> b"
  shows "set (block_members world_size block_size b) =
           {(b - 1) * block_size + 1 .. min (world_size - 1) (b * block_size)}"
proof -
  have "0 \<le> (b - 1) * block_size"
    using assms by simp
  then have lo: "\<And>r. (b - 1) * block_size + 1 \<le> r \<Longrightarrow> 0 \<le> r"
    by linarith
  show ?thesis
    unfolding block_members_def
    using lo get_block_num_eq_iff [OF assms] by auto
qed

lemma block_members_interval:
  assumes "1 \<le> block_size" and "1 \<le> b"
  shows "block_members world_size block_size b =
           [(b - 1) * block_size + 1 .. min (world_size - 1) (b * block_size)]"
proof (rule sorted_distinct_set_unique)
  show "sorted (block_members world_size block_size b)"
    by (simp add: block_members_def sorted_wrt_filter)
  show "distinct (block_members world_size block_size b)"
    by (simp add: block_members_def)
  show "set (block_members world_size block_size b) =
          set [(b - 1) * block_size + 1 .. min (world_size - 1) (b * block_size)]"
    using block_members_set [OF assms] by simp
qed simp_all

lemma get_block_num_zero_iff:
  assumes "1 \<le> block_size" and "0 \<le> r"
  shows "(get_block_num r block_size = Inr 0) = (r = 0)"
proof (cases "r = 0")
  case True
  then show ?thesis by (simp add: get_block_num_def)
next
  case False
  then have r1: "1 \<le> r"
    using assms by simp
  have "0 \<le> (r - 1) div block_size"
    using assms r1 by (simp add: pos_imp_zdiv_nonneg_iff)
  then show ?thesis
    using False get_block_num_pos [OF assms(1) r1] by simp
qed

lemma block_members_coordinator:
  assumes "1 \<le> block_size"
  shows "block_members world_size block_size 0 = (if 1 \<le> world_size then [0] else [])"
proof (rule sorted_distinct_set_unique)
  show "sorted (block_members world_size block_size 0)"
    by (simp add: block_members_def sorted_wrt_filter)
  show "distinct (block_members world_size block_size 0)"
    by (simp add: block_members_def)
  show "set (block_members world_size block_size 0) =
          set (if 1 \<le> world_size then [0] else [])"
    unfolding block_members_def
    using get_block_num_zero_iff [OF assms] by auto
qed simp_all

lemma block_members_mem_iff:
  assumes "0 \<le> r" and "r < world_size"
  shows "(r \<in> set (block_members world_size block_size k)) =
           (get_block_num r block_size = Inr k)"
  using assms by (simp add: block_members_def)

text \<open>
  Claim C7. For a block size of at least 1, \<open>get_block_num\<close> sends rank 0 to block 0
  and every rank \<open>r \<ge> 1\<close> to block \<open>1 + (r - 1) div block_size\<close>. In a world of
  \<open>world_size\<close> ranks, rank 0 is a member of block 0 and of no other block, and a rank
  \<open>r \<ge> 1\<close> is a member of the block with that number and of no other. Block 0 holds
  rank 0 alone; a block \<open>b \<ge> 1\<close> is the run of consecutive ranks from
  \<open>(b - 1) * block_size + 1\<close> to \<open>b * block_size\<close>, cut at the last rank of the world,
  so it has at most \<open>block_size\<close> members.
\<close>

theorem get_block_num_partition:
  assumes "1 \<le> block_size" and "1 \<le> r" and "1 \<le> b"
  shows "get_block_num 0 block_size = Inr 0
       \<and> get_block_num r block_size = Inr (1 + (r - 1) div block_size)
       \<and> (1 \<le> world_size \<longrightarrow>
            (0 \<in> set (block_members world_size block_size k)) = (k = 0))
       \<and> (r < world_size \<longrightarrow>
            (r \<in> set (block_members world_size block_size k)) =
              (k = 1 + (r - 1) div block_size))
       \<and> block_members world_size block_size 0 = (if 1 \<le> world_size then [0] else [])
       \<and> block_members world_size block_size b =
            [(b - 1) * block_size + 1 .. min (world_size - 1) (b * block_size)]
       \<and> length (block_members world_size block_size b) \<le> nat block_size"
proof -
  have c0: "get_block_num 0 block_size = Inr 0"
    by (simp add: get_block_num_def)
  have cr: "get_block_num r block_size = Inr (1 + (r - 1) div block_size)"
    using assms(1,2) by (rule get_block_num_pos)
  have m0: "1 \<le> world_size \<longrightarrow>
            (0 \<in> set (block_members world_size block_size k)) = (k = 0)"
    using block_members_mem_iff [of 0 world_size block_size k] c0 by auto
  have mr: "r < world_size \<longrightarrow>
            (r \<in> set (block_members world_size block_size k)) =
              (k = 1 + (r - 1) div block_size)"
    using block_members_mem_iff [of r world_size block_size k] assms(2) cr by auto
  have b0: "block_members world_size block_size 0 = (if 1 \<le> world_size then [0] else [])"
    using assms(1) by (rule block_members_coordinator)
  have bb: "block_members world_size block_size b =
            [(b - 1) * block_size + 1 .. min (world_size - 1) (b * block_size)]"
    using assms(1,3) by (rule block_members_interval)
  have "min (world_size - 1) (b * block_size) - ((b - 1) * block_size + 1) + 1 \<le> block_size"
    by (simp add: algebra_simps)
  then have len: "length (block_members world_size block_size b) \<le> nat block_size"
    unfolding bb by simp
  show ?thesis
    using c0 cr m0 mr b0 bb len by blast
qed

theorem get_block_num_partition_witness:
  "(1::int) \<le> 3 \<and> (1::int) \<le> 5 \<and> (1::int) \<le> 2
   \<and> get_block_num 0 3 = Inr 0 \<and> get_block_num 5 3 = Inr 2
   \<and> (0 \<in> set (block_members 10 3 0)) \<and> (5 \<in> set (block_members 10 3 2))
   \<and> block_members 10 3 0 = [0]
   \<and> block_members 10 3 2 = [4, 5, 6]
   \<and> length (block_members 10 3 2) \<le> 3"
  using get_block_num_partition [of 3 5 2 10 2] get_block_num_partition [of 3 5 2 10 0]
  by (simp add: upto.simps)

subsection \<open>The block-size check comes first\<close>

lemma hs_main_assert:
  assumes "hs_block_size args \<le> 1"
  shows "hs_main args world_size rank count_data =
           ([], Inl (AssertionError ''Block size must be at least 2 (master + worker)''))"
  using assms by (simp add: hs_main_def check_sanity_def run_defs)

text \<open>
  Claim C8. \<open>check_sanity\<close> raises for every command line whose block size is at most 1
  and returns for every command line whose block size is at least 2. The main program
  calls it before anything else: with a block size of at most 1 the run ends in the
  assertion error having issued no library call at all, so a run in which a communicator
  is split or a training, a coordinator or a process block is started has passed the
  check.
\<close>

theorem check_sanity_gate:
  "(hs_block_size args \<le> 1 \<longrightarrow>
      check_sanity args =
        Inl (AssertionError ''Block size must be at least 2 (master + worker)'')
      \<and> hs_main args world_size rank count_data =
        ([], Inl (AssertionError ''Block size must be at least 2 (master + worker)'')))
   \<and> (2 \<le> hs_block_size args \<longrightarrow> check_sanity args = Inr ())
   \<and> (list_ex (\<lambda>ev. is_split ev \<or> is_training ev)
         (fst (hs_main args world_size rank count_data)) \<longrightarrow>
       check_sanity args = Inr ())"
proof (cases "hs_block_size args \<le> 1")
  case True
  then show ?thesis
    using hs_main_assert [OF True] by (simp add: check_sanity_def)
next
  case False
  then show ?thesis
    by (simp add: check_sanity_def)
qed

theorem check_sanity_gate_witness:
  "hs_block_size (hs_sample\<lparr>hs_block_size := 1\<rparr>) \<le> 1
   \<and> hs_main (hs_sample\<lparr>hs_block_size := 1\<rparr>) 7 4 250 =
       ([], Inl (AssertionError ''Block size must be at least 2 (master + worker)''))
   \<and> 2 \<le> hs_block_size hs_sample
   \<and> list_ex (\<lambda>ev. is_split ev \<or> is_training ev) (fst (hs_main hs_sample 7 4 250))
   \<and> check_sanity hs_sample = Inr ()"
  using check_sanity_gate [of "hs_sample\<lparr>hs_block_size := 1\<rparr>" 7 4 250]
    check_sanity_gate [of hs_sample 7 4 250]
  by (simp add: hs_sample_def hs_main_def hs_block_def check_sanity_def py_divmod_def
      get_block_num_def hs_validate_every_def py_truediv_def run_defs)

subsection \<open>A last block smaller than the others\<close>

text \<open>
  Claim C2. The script leaves through \<open>sys.exit(1)\<close> whenever the ranks other than the
  coordinator do not divide evenly into blocks, whatever the remainder: the exit stands
  after the test \<open>left_over < 2\<close>, not under it. A remainder of 2 or more ranks ends
  the run as a remainder of 1 does, after the communicator has been duplicated and
  before any device is chosen, any communicator split or any block started.
\<close>

theorem left_over_block_exits:
  assumes "2 \<le> hs_block_size args"
    and "(world_size - 1) mod hs_block_size args \<noteq> 0"
  shows "hs_main args world_size rank count_data = ([Comm_Dup], Inl (SystemExit 1))"
  using assms by (simp add: hs_main_def check_sanity_def py_divmod_def run_defs)

theorem left_over_block_exits_witness:
  "2 \<le> hs_block_size hs_sample
   \<and> py_divmod (6 - 1) (hs_block_size hs_sample) = Inr (1, 2)
   \<and> hs_main hs_sample 6 4 250 = ([Comm_Dup], Inl (SystemExit 1))"
  using left_over_block_exits [of hs_sample 6 4 250]
  by (simp add: hs_sample_def py_divmod_def)

subsection \<open>How often to validate\<close>

lemma quotient_is_int_iff:
  fixes c b :: int
  assumes "0 < b"
  shows "((of_int c / of_int b :: rat) = of_int (c div b)) = (b dvd c)"
proof
  assume "(of_int c / of_int b :: rat) = of_int (c div b)"
  then have "(of_int c :: rat) = of_int (c div b) * of_int b"
    using assms by (simp add: field_simps)
  then have "(of_int c :: rat) = of_int (c div b * b)"
    by simp
  then have "c = c div b * b"
    using of_int_eq_iff by blast
  then show "b dvd c"
    by (metis dvd_triv_right)
next
  assume "b dvd c"
  then show "(of_int c / of_int b :: rat) = of_int (c div b)"
    using assms by auto
qed

lemma td_validate_every_nonneg:
  assumes "0 \<le> count_data" and "0 < batch"
  shows "td_validate_every count_data batch = Inr (PyInt (count_data div batch))"
proof -
  have "(0::rat) \<le> of_int count_data / of_int batch"
    using assms by simp
  then have "py_int (of_int count_data / of_int batch) = count_data div batch"
    by (simp add: py_int_def floor_divide_of_int_eq)
  then show ?thesis
    using assms by (simp add: td_validate_every_def py_truediv_def)
qed

lemma hs_validate_every_float:
  assumes "batch \<noteq> 0"
  shows "hs_validate_every count_data batch =
           Inr (PyFloat (of_int count_data / of_int batch))"
  using assms by (simp add: hs_validate_every_def py_truediv_def)

text \<open>
  Claim C6. For a count of examples that is not negative and a positive batch size, the
  training driver hands the integer \<open>count_data div batch\<close> to \<open>Algo\<close>, the quotient
  truncated. The search script hands over the quotient itself, a float, which is the
  value of that integer only when the batch size divides the count: with 250 examples
  and batches of 100 the driver passes 2 and the search script 2.5.
\<close>

theorem validate_every_not_truncated:
  assumes "0 \<le> count_data" and "0 < batch"
  shows "td_validate_every count_data batch = Inr (PyInt (count_data div batch))
       \<and> hs_validate_every count_data batch =
           Inr (PyFloat (of_int count_data / of_int batch))
       \<and> ((of_int count_data / of_int batch :: rat) = of_int (count_data div batch))
           = (batch dvd count_data)"
  using assms td_validate_every_nonneg [OF assms] hs_validate_every_float [of batch count_data]
    quotient_is_int_iff [OF assms(2), of count_data]
  by simp

theorem validate_every_not_truncated_witness:
  "(0::int) \<le> 250 \<and> (0::int) < 100
   \<and> td_validate_every 250 100 = Inr (PyInt 2)
   \<and> hs_validate_every 250 100 = Inr (PyFloat (5 / 2))
   \<and> (5 / 2 :: rat) \<noteq> of_int 2
   \<and> Algo_init (hs_algo_call hs_sample (PyFloat (5 / 2)))
        \<in> set (fst (hs_main hs_sample 7 4 250))"
proof -
  have "Algo_init (hs_algo_call hs_sample (PyFloat (5 / 2)))
      \<in> set (fst (hs_main hs_sample 7 4 250))"
    by (simp add: hs_validate_every_def py_truediv_def
      hs_sample_def hs_main_def hs_block_def check_sanity_def py_divmod_def
      get_block_num_def run_defs)
  then show ?thesis
    using validate_every_not_truncated [of 250 100] by simp
qed

section \<open>Properties of the training driver\<close>

subsection \<open>What each phase can and cannot issue\<close>

lemma never_tf_torch_builder: "never is_tensorflow (torch_builder args device m w)"
  unfolding torch_builder_def
  by (intro never_and_then) (simp_all add: never_simps)

lemma never_torch_tf_builder: "never is_pytorch (tf_builder args device m w)"
  unfolding tf_builder_def
  by (intro never_and_then) (simp_all add: never_simps)

lemma never_load_algo: "(\<And>r. \<not> P (Algo_load r)) \<Longrightarrow> never P (load_algo algo restore)"
  unfolding load_algo_def
  by (simp add: never_simps split: option.splits)

lemma never_start_manager: "\<not> P MPIManager_init \<Longrightarrow> \<not> P Train \<Longrightarrow> never P (start_manager algo val_list rank)"
  unfolding start_manager_def
  by (auto intro!: never_and_then simp: never_simps split: option.splits)

lemma never_algo_phase:
  assumes "\<And>b. \<not> P (H5Data_init b)" "\<And>c. \<not> P (Algo_init c)" "\<And>r. \<not> P (Algo_load r)"
    "\<not> P MPIManager_init" "\<not> P Train"
  shows "never P (algo_phase args env opt train_list val_list restore)"
  unfolding algo_phase_def
  apply (intro never_and_then never_start_manager never_load_algo)
  apply (simp_all add: never_simps assms split: option.splits)
  done

lemma py_in_iff: "py_in sub s = (\<exists>pre post. s = pre @ sub @ post)"
proof (induction s)
  case Nil
  then show ?case by auto
next
  case (Cons c cs)
  have "(\<exists>pre post. c # cs = pre @ sub @ post) =
        ((\<exists>post. c # cs = sub @ post) \<or> (\<exists>pre post. cs = pre @ sub @ post))"
  proof
    assume "\<exists>pre post. c # cs = pre @ sub @ post"
    then obtain pre post where e: "c # cs = pre @ sub @ post" by blast
    show "(\<exists>post. c # cs = sub @ post) \<or> (\<exists>pre post. cs = pre @ sub @ post)"
    proof (cases pre)
      case Nil
      then show ?thesis using e by auto
    next
      case (Cons p ps)
      then have "cs = ps @ sub @ post" using e by simp
      then show ?thesis by blast
    qed
  next
    assume "(\<exists>post. c # cs = sub @ post) \<or> (\<exists>pre post. cs = pre @ sub @ post)"
    then show "\<exists>pre post. c # cs = pre @ sub @ post"
    proof
      assume "\<exists>post. c # cs = sub @ post"
      then obtain post where "c # cs = [] @ sub @ post" by auto
      then show ?thesis by blast
    next
      assume "\<exists>pre post. cs = pre @ sub @ post"
      then obtain pre post where "cs = pre @ sub @ post" by blast
      then have "c # cs = (c # pre) @ sub @ post" by simp
      then show ?thesis by blast
    qed
  qed
  then show ?case
    using Cons.IH by (simp add: prefix_def)
qed

lemma never_tf_algo_phase: "never is_tensorflow (algo_phase args env opt train_list val_list restore)"
  by (rule never_algo_phase) simp_all

lemma never_torch_algo_phase: "never is_pytorch (algo_phase args env opt train_list val_list restore)"
  by (rule never_algo_phase) simp_all

lemma td_run_torch_never_tf:
  assumes "select_backend args = Inr a_backend" and "a_backend \<noteq> ''keras''"
  shows "never is_tensorflow (td_run args env)"
  unfolding td_run_def
  using assms
  by (auto intro!: never_and_then never_tf_algo_phase never_tf_torch_builder
      simp: never_simps and_then_lift_Inr split_beta)

lemma td_run_keras_never_torch:
  assumes "select_backend args = Inr ''keras''"
  shows "never is_pytorch (td_run args env)"
  unfolding td_run_def
  using assms
  by (auto intro!: never_and_then never_torch_algo_phase never_torch_tf_builder
      simp: never_simps and_then_lift_Inr split_beta)

subsection \<open>A run on the sample command line\<close>

lemmas td_eval =
  td_run_def algo_phase_def start_manager_def load_algo_def make_algo_def
  easgd_elastic_force_def td_validate_every_nonneg restore_block_def resolve_restore_def
  restore_weights_def re_sub_algo_def select_backend_def import_model_def load_list_def
  py_truthy_def torch_builder_def tf_builder_def probe_builder_def with_suffix_def
  visible_device_def py_splitlines_def py_readlines_def py_strip_def py_isspace_def
  py_linebreak_def td_sample_def td_sample_env_def sample_files_def sample_module_def
  suffix_to_prefix and_then_def lift_def emit_def ok_def

lemma sample_run:
  "td_run td_sample td_sample_env =
     ([Comm_Dup, Get_device, Setenv ''CUDA_VISIBLE_DEVICES'' ''0'',
       Setenv ''KERAS_BACKEND'' ''tensorflow'', Keras_session,
       ModelTensorFlow_init (Some ''model.json'') ''gpu0'' None, H5Data_init 100,
       Algo_init
         \<lparr> algo_optimizer = None, algo_loss = ''binary_crossentropy'',
           algo_validate_every = PyInt 2, algo_mode = Some ''easgd'',
           algo_sync_every = 1, algo_worker_optimizer = Some ''sgd'',
           algo_worker_optimizer_params = Some ''{}'',
           algo_elastic_force = Some (3 / 10), algo_elastic_lr = Some 1,
           algo_elastic_momentum = Some 0, algo_learning_rate = None,
           algo_momentum = None, algo_kappa = None \<rparr>,
       Algo_load ''ck-10'', MPIManager_init, Train],
      Inr ())"
  by (simp add: td_eval)

subsection \<open>Where the model builders are made\<close>

lemma pytorch_not_in_algo_phase:
  "ModelPytorch_init src w g \<notin> set (fst (algo_phase args env opt train_list val_list restore))"
  using never_torch_algo_phase [of args env opt train_list val_list restore]
  by (auto simp: never_def list_ex_iff)

lemma tensorflow_not_in_algo_phase:
  "ModelTensorFlow_init src d w \<notin> set (fst (algo_phase args env opt train_list val_list restore))"
  using never_tf_algo_phase [of args env opt train_list val_list restore]
  by (auto simp: never_def list_ex_iff)

lemma pytorch_init_in_torch_builder:
  "(ModelPytorch_init src w g \<in> set (fst (torch_builder args device m_module model_weights))) =
     (m_module = None \<and> src = td_model args \<and> w = model_weights
      \<and> g = (if py_in ''gpu'' device then 1 else 0))"
  by (cases m_module) (auto simp: torch_builder_def probe_builder_def in_run_simps)

lemma tensorflow_init_in_tf_builder:
  "(ModelTensorFlow_init src d w \<in> set (fst (tf_builder args device m_module model_weights))) =
     (m_module = None \<and> src = td_model args \<and> w = model_weights
      \<and> d = (if py_in ''gpu'' device then ''gpu0'' else []))"
  by (cases m_module) (auto simp: tf_builder_def probe_builder_def in_run_simps)

lemma pytorch_init_in_td_run:
  assumes "select_backend args = Inr a_backend" and "a_backend \<noteq> ''keras''"
  shows "(ModelPytorch_init src w g \<in> set (fst (td_run args env))) =
     (src = td_model args \<and> g = (if py_in ''gpu'' (env_device env) then 1 else 0)
      \<and> import_model args env = Inr None
      \<and> (\<exists>train_list. load_list env (td_train_data args) None mod_get_train ''get_train''
             = Inr train_list)
      \<and> (\<exists>val_list. load_list env (td_val_data args) None mod_get_val ''get_val''
             = Inr val_list)
      \<and> (\<exists>restore. restore_block args env True = Inr (restore, w)))"
  using assms
  by (auto simp: td_run_def in_run_simps pytorch_init_in_torch_builder
      pytorch_not_in_algo_phase)

lemma tensorflow_init_in_td_run:
  assumes "select_backend args = Inr ''keras''"
  shows "(ModelTensorFlow_init src d w \<in> set (fst (td_run args env))) =
     (src = td_model args \<and> d = (if py_in ''gpu'' (env_device env) then ''gpu0'' else [])
      \<and> import_model args env = Inr None
      \<and> (\<exists>train_list. load_list env (td_train_data args) None mod_get_train ''get_train''
             = Inr train_list)
      \<and> (\<exists>val_list. load_list env (td_val_data args) None mod_get_val ''get_val''
             = Inr val_list)
      \<and> (\<exists>restore. restore_block args env False = Inr (restore, w)))"
  using assms
  by (auto simp: td_run_def in_run_simps tensorflow_init_in_tf_builder
      tensorflow_not_in_algo_phase)

lemma torch_builder_returns:
  assumes "snd (torch_builder args device m_module model_weights) = Inr opt"
  shows "m_module = None"
  using assms
  by (cases m_module) (auto simp: torch_builder_def probe_builder_def run_defs)

lemma tf_builder_returns:
  assumes "snd (tf_builder args device m_module model_weights) = Inr opt"
  shows "m_module = None"
  using assms
  by (cases m_module) (auto simp: tf_builder_def probe_builder_def run_defs)

lemma td_run_returns_torch:
  assumes "select_backend args = Inr a_backend" and "a_backend \<noteq> ''keras''"
    and "snd (td_run args env) = Inr ()"
  shows "\<exists>w. ModelPytorch_init (td_model args) w
               (if py_in ''gpu'' (env_device env) then 1 else 0)
             \<in> set (fst (td_run args env))"
proof -
  have "\<exists>m train_list val_list restore w opt.
          import_model args env = Inr m
          \<and> load_list env (td_train_data args) m mod_get_train ''get_train'' = Inr train_list
          \<and> load_list env (td_val_data args) m mod_get_val ''get_val'' = Inr val_list
          \<and> restore_block args env True = Inr (restore, w)
          \<and> snd (torch_builder args (env_device env) m w) = Inr opt"
    using assms
    by (auto simp: td_run_def snd_and_then snd_lift snd_emit snd_ok
        split: sum.splits if_splits prod.splits)
  then obtain m train_list val_list restore w opt
    where "import_model args env = Inr m"
      and "load_list env (td_train_data args) m mod_get_train ''get_train'' = Inr train_list"
      and "load_list env (td_val_data args) m mod_get_val ''get_val'' = Inr val_list"
      and "restore_block args env True = Inr (restore, w)"
      and b: "snd (torch_builder args (env_device env) m w) = Inr opt"
    by blast
  moreover have "m = None"
    using b by (rule torch_builder_returns)
  ultimately have "ModelPytorch_init (td_model args) w
               (if py_in ''gpu'' (env_device env) then 1 else 0)
             \<in> set (fst (td_run args env))"
    unfolding pytorch_init_in_td_run [OF assms(1,2)] by blast
  then show ?thesis by blast
qed

lemma td_run_returns_keras:
  assumes "select_backend args = Inr ''keras''"
    and "snd (td_run args env) = Inr ()"
  shows "\<exists>w. ModelTensorFlow_init (td_model args)
               (if py_in ''gpu'' (env_device env) then ''gpu0'' else []) w
             \<in> set (fst (td_run args env))"
proof -
  have "\<exists>m train_list val_list restore w opt.
          import_model args env = Inr m
          \<and> load_list env (td_train_data args) m mod_get_train ''get_train'' = Inr train_list
          \<and> load_list env (td_val_data args) m mod_get_val ''get_val'' = Inr val_list
          \<and> restore_block args env False = Inr (restore, w)
          \<and> snd (tf_builder args (env_device env) m w) = Inr opt"
    using assms
    by (auto simp: td_run_def snd_and_then snd_lift snd_emit snd_ok
        split: sum.splits if_splits prod.splits)
  then obtain m train_list val_list restore w opt
    where "import_model args env = Inr m"
      and "load_list env (td_train_data args) m mod_get_train ''get_train'' = Inr train_list"
      and "load_list env (td_val_data args) m mod_get_val ''get_val'' = Inr val_list"
      and "restore_block args env False = Inr (restore, w)"
      and b: "snd (tf_builder args (env_device env) m w) = Inr opt"
    by blast
  moreover have "m = None"
    using b by (rule tf_builder_returns)
  ultimately have "ModelTensorFlow_init (td_model args)
               (if py_in ''gpu'' (env_device env) then ''gpu0'' else []) w
             \<in> set (fst (td_run args env))"
    unfolding tensorflow_init_in_td_run [OF assms(1)] by blast
  then show ?thesis by blast
qed

subsection \<open>The backend\<close>

text \<open>
  Claim C10. \<open>'torch' in args.model\<close> holds exactly when the model path contains the
  five characters somewhere. When it does, the backend is \<open>torch\<close> whatever
  \<open>--backend\<close> says: the run makes no TensorFlow call, it constructs
  \<open>ModelPytorch\<close> from the model path exactly when it gets as far as the builder
  (the model is no \<open>.py\<close> file, both input lists load and the restoring block
  returns), and a run that returns has constructed it. When the path does not contain
  \<open>torch\<close>, the backend is the value of \<open>--backend\<close>: with \<open>keras\<close> the run makes
  no PyTorch call and constructs \<open>ModelTensorFlow\<close> under the same conditions, with
  \<open>torch\<close> it makes no TensorFlow call and constructs \<open>ModelPytorch\<close>.
\<close>

theorem torch_in_model_forces_backend:
  assumes "td_model args = Some model"
  shows "(py_in ''torch'' model) = (\<exists>pre post. model = pre @ ''torch'' @ post)
       \<and> (py_in ''torch'' model \<longrightarrow>
            select_backend args = Inr ''torch'' \<and> never is_tensorflow (td_run args env))
       \<and> (\<not> py_in ''torch'' model \<longrightarrow> select_backend args = Inr (td_backend args))
       \<and> (\<not> py_in ''torch'' model \<and> td_backend args = ''keras'' \<longrightarrow>
            never is_pytorch (td_run args env))
       \<and> (\<not> py_in ''torch'' model \<and> td_backend args = ''torch'' \<longrightarrow>
            never is_tensorflow (td_run args env))
       \<and> (py_in ''torch'' model \<or> td_backend args = ''torch'' \<longrightarrow>
            (ModelPytorch_init src w g \<in> set (fst (td_run args env))) =
              (src = Some model \<and> g = (if py_in ''gpu'' (env_device env) then 1 else 0)
               \<and> import_model args env = Inr None
               \<and> (\<exists>train_list. load_list env (td_train_data args) None mod_get_train
                      ''get_train'' = Inr train_list)
               \<and> (\<exists>val_list. load_list env (td_val_data args) None mod_get_val
                      ''get_val'' = Inr val_list)
               \<and> (\<exists>restore. restore_block args env True = Inr (restore, w)))
            \<and> (snd (td_run args env) = Inr () \<longrightarrow>
                 (\<exists>weights. ModelPytorch_init (Some model) weights
                      (if py_in ''gpu'' (env_device env) then 1 else 0)
                    \<in> set (fst (td_run args env)))))
       \<and> (\<not> py_in ''torch'' model \<and> td_backend args = ''keras'' \<longrightarrow>
            (ModelTensorFlow_init src d w \<in> set (fst (td_run args env))) =
              (src = Some model
               \<and> d = (if py_in ''gpu'' (env_device env) then ''gpu0'' else [])
               \<and> import_model args env = Inr None
               \<and> (\<exists>train_list. load_list env (td_train_data args) None mod_get_train
                      ''get_train'' = Inr train_list)
               \<and> (\<exists>val_list. load_list env (td_val_data args) None mod_get_val
                      ''get_val'' = Inr val_list)
               \<and> (\<exists>restore. restore_block args env False = Inr (restore, w)))
            \<and> (snd (td_run args env) = Inr () \<longrightarrow>
                 (\<exists>weights. ModelTensorFlow_init (Some model)
                      (if py_in ''gpu'' (env_device env) then ''gpu0'' else []) weights
                    \<in> set (fst (td_run args env)))))"
proof -
  have sub: "(py_in ''torch'' model) = (\<exists>pre post. model = pre @ ''torch'' @ post)"
    by (rule py_in_iff)
  have yes: "select_backend args = Inr ''torch''" if "py_in ''torch'' model"
    using assms that by (simp add: select_backend_def)
  have no: "select_backend args = Inr (td_backend args)" if "\<not> py_in ''torch'' model"
    using assms that by (simp add: select_backend_def)
  have t1: "never is_tensorflow (td_run args env)" if "py_in ''torch'' model"
    using td_run_torch_never_tf [OF yes [OF that]] by simp
  have t2: "never is_pytorch (td_run args env)"
    if "\<not> py_in ''torch'' model" and "td_backend args = ''keras''"
    using td_run_keras_never_torch [of args env] no [OF that(1)] that(2) by simp
  have t3: "never is_tensorflow (td_run args env)"
    if "\<not> py_in ''torch'' model" and "td_backend args = ''torch''"
    using td_run_torch_never_tf [of args "''torch''" env] no [OF that(1)] that(2) by simp
  have torch: "select_backend args = Inr ''torch''"
    if "py_in ''torch'' model \<or> td_backend args = ''torch''"
    using that yes no by (cases "py_in ''torch'' model") auto
  have p1: "(ModelPytorch_init src w g \<in> set (fst (td_run args env))) =
              (src = Some model \<and> g = (if py_in ''gpu'' (env_device env) then 1 else 0)
               \<and> import_model args env = Inr None
               \<and> (\<exists>train_list. load_list env (td_train_data args) None mod_get_train
                      ''get_train'' = Inr train_list)
               \<and> (\<exists>val_list. load_list env (td_val_data args) None mod_get_val
                      ''get_val'' = Inr val_list)
               \<and> (\<exists>restore. restore_block args env True = Inr (restore, w)))"
    if "py_in ''torch'' model \<or> td_backend args = ''torch''"
    using pytorch_init_in_td_run [OF torch [OF that], of src w g env] assms by simp
  have p2: "\<exists>weights. ModelPytorch_init (Some model) weights
                      (if py_in ''gpu'' (env_device env) then 1 else 0)
                    \<in> set (fst (td_run args env))"
    if "py_in ''torch'' model \<or> td_backend args = ''torch''"
      and "snd (td_run args env) = Inr ()"
    using td_run_returns_torch [OF torch [OF that(1)] _ that(2)] assms by simp
  have keras: "select_backend args = Inr ''keras''"
    if "\<not> py_in ''torch'' model \<and> td_backend args = ''keras''"
    using that no by simp
  have k1: "(ModelTensorFlow_init src d w \<in> set (fst (td_run args env))) =
              (src = Some model
               \<and> d = (if py_in ''gpu'' (env_device env) then ''gpu0'' else [])
               \<and> import_model args env = Inr None
               \<and> (\<exists>train_list. load_list env (td_train_data args) None mod_get_train
                      ''get_train'' = Inr train_list)
               \<and> (\<exists>val_list. load_list env (td_val_data args) None mod_get_val
                      ''get_val'' = Inr val_list)
               \<and> (\<exists>restore. restore_block args env False = Inr (restore, w)))"
    if "\<not> py_in ''torch'' model \<and> td_backend args = ''keras''"
    using tensorflow_init_in_td_run [OF keras [OF that], of src d w env] assms by simp
  have k2: "\<exists>weights. ModelTensorFlow_init (Some model)
                      (if py_in ''gpu'' (env_device env) then ''gpu0'' else []) weights
                    \<in> set (fst (td_run args env))"
    if "\<not> py_in ''torch'' model \<and> td_backend args = ''keras''"
      and "snd (td_run args env) = Inr ()"
    using td_run_returns_keras [OF keras [OF that(1)] that(2)] assms by simp
  have first: "(py_in ''torch'' model \<longrightarrow>
            select_backend args = Inr ''torch'' \<and> never is_tensorflow (td_run args env))
       \<and> (\<not> py_in ''torch'' model \<longrightarrow> select_backend args = Inr (td_backend args))
       \<and> (\<not> py_in ''torch'' model \<and> td_backend args = ''keras'' \<longrightarrow>
            never is_pytorch (td_run args env))
       \<and> (\<not> py_in ''torch'' model \<and> td_backend args = ''torch'' \<longrightarrow>
            never is_tensorflow (td_run args env))"
    using yes no t1 t2 t3 by blast
  show ?thesis
    using sub first p1 p2 k1 k2 by (intro conjI impI) blast+
qed

theorem torch_in_model_forces_backend_witness:
  "td_model (td_sample\<lparr>td_model := Some ''my_torch_net.json'', td_restore := None\<rparr>)
     = Some ''my_torch_net.json''
   \<and> td_backend (td_sample\<lparr>td_model := Some ''my_torch_net.json'', td_restore := None\<rparr>)
     = ''keras''
   \<and> py_in ''torch'' ''my_torch_net.json''
   \<and> select_backend (td_sample\<lparr>td_model := Some ''my_torch_net.json'', td_restore := None\<rparr>)
     = Inr ''torch''
   \<and> never is_tensorflow
        (td_run (td_sample\<lparr>td_model := Some ''my_torch_net.json'', td_restore := None\<rparr>)
           td_sample_env)
   \<and> snd (td_run (td_sample\<lparr>td_model := Some ''my_torch_net.json'', td_restore := None\<rparr>)
           td_sample_env) = Inr ()
   \<and> ModelPytorch_init (Some ''my_torch_net.json'') None 1
        \<in> set (fst (td_run
             (td_sample\<lparr>td_model := Some ''my_torch_net.json'', td_restore := None\<rparr>)
             td_sample_env))
   \<and> \<not> py_in ''torch'' ''model.json''
   \<and> select_backend (td_sample\<lparr>td_restore := None\<rparr>) = Inr ''keras''
   \<and> never is_pytorch (td_run (td_sample\<lparr>td_restore := None\<rparr>) td_sample_env)
   \<and> snd (td_run (td_sample\<lparr>td_restore := None\<rparr>) td_sample_env) = Inr ()
   \<and> ModelTensorFlow_init (Some ''model.json'') ''gpu0'' None
        \<in> set (fst (td_run (td_sample\<lparr>td_restore := None\<rparr>) td_sample_env))
   \<and> td_backend (td_sample\<lparr>td_backend := ''torch'', td_restore := None\<rparr>) = ''torch''
   \<and> select_backend (td_sample\<lparr>td_backend := ''torch'', td_restore := None\<rparr>)
     = Inr ''torch''
   \<and> never is_tensorflow
        (td_run (td_sample\<lparr>td_backend := ''torch'', td_restore := None\<rparr>) td_sample_env)
   \<and> ModelPytorch_init (Some ''model.json'') None 1
        \<in> set (fst (td_run (td_sample\<lparr>td_backend := ''torch'', td_restore := None\<rparr>)
             td_sample_env))"
proof -
  have a1: "td_model (td_sample\<lparr>td_model := Some ''my_torch_net.json'', td_restore := None\<rparr>)
              = Some ''my_torch_net.json''"
    by (simp add: td_sample_def)
  have a2: "td_model (td_sample\<lparr>td_restore := None\<rparr>) = Some ''model.json''"
    by (simp add: td_sample_def)
  have a3: "td_model (td_sample\<lparr>td_backend := ''torch'', td_restore := None\<rparr>)
              = Some ''model.json''"
    by (simp add: td_sample_def)
  have b1: "td_backend (td_sample\<lparr>td_model := Some ''my_torch_net.json'', td_restore := None\<rparr>)
              = ''keras''"
    by (simp add: td_sample_def)
  have b2: "td_backend (td_sample\<lparr>td_restore := None\<rparr>) = ''keras''"
    by (simp add: td_sample_def)
  have b3: "td_backend (td_sample\<lparr>td_backend := ''torch'', td_restore := None\<rparr>) = ''torch''"
    by (simp add: td_sample_def)
  have i1: "py_in ''torch'' ''my_torch_net.json''"
    by simp
  have i2: "\<not> py_in ''torch'' ''model.json''"
    by simp
  have r1: "snd (td_run (td_sample\<lparr>td_model := Some ''my_torch_net.json'', td_restore := None\<rparr>)
           td_sample_env) = Inr ()"
    by (simp add: td_eval)
  have r2: "snd (td_run (td_sample\<lparr>td_restore := None\<rparr>) td_sample_env) = Inr ()"
    by (simp add: td_eval)
  have m1: "ModelPytorch_init (Some ''my_torch_net.json'') None 1
        \<in> set (fst (td_run
             (td_sample\<lparr>td_model := Some ''my_torch_net.json'', td_restore := None\<rparr>)
             td_sample_env))"
    by (simp add: td_eval)
  have m2: "ModelTensorFlow_init (Some ''model.json'') ''gpu0'' None
        \<in> set (fst (td_run (td_sample\<lparr>td_restore := None\<rparr>) td_sample_env))"
    by (simp add: td_eval)
  have m3: "ModelPytorch_init (Some ''model.json'') None 1
        \<in> set (fst (td_run (td_sample\<lparr>td_backend := ''torch'', td_restore := None\<rparr>)
             td_sample_env))"
    by (simp add: td_eval)
  have c1: "select_backend
              (td_sample\<lparr>td_model := Some ''my_torch_net.json'', td_restore := None\<rparr>)
              = Inr ''torch''
            \<and> never is_tensorflow
                 (td_run (td_sample\<lparr>td_model := Some ''my_torch_net.json'', td_restore := None\<rparr>)
                    td_sample_env)"
    using i1 torch_in_model_forces_backend [OF a1, where env = td_sample_env] by blast
  have c2: "select_backend (td_sample\<lparr>td_restore := None\<rparr>) = Inr ''keras''
            \<and> never is_pytorch (td_run (td_sample\<lparr>td_restore := None\<rparr>) td_sample_env)"
    using i2 b2 torch_in_model_forces_backend [OF a2, where env = td_sample_env] by metis
  have c3: "select_backend (td_sample\<lparr>td_backend := ''torch'', td_restore := None\<rparr>)
              = Inr ''torch''
            \<and> never is_tensorflow
                 (td_run (td_sample\<lparr>td_backend := ''torch'', td_restore := None\<rparr>)
                    td_sample_env)"
    using i2 b3 torch_in_model_forces_backend [OF a3, where env = td_sample_env] by metis
  show ?thesis
    using a1 b1 i1 c1 r1 m1 i2 c2 r2 m2 b3 c3 m3 by blast
qed


subsection \<open>A mode that is not supported\<close>

lemma make_algo_other_mode:
  assumes "td_mode args \<notin> set mode_choices"
  shows "make_algo args opt validate_every world_size = Inr None"
  using assms by (simp add: make_algo_def mode_choices_def)

lemma fails_start_manager_unbound: "fails (start_manager None val_list rank)"
  by (simp add: start_manager_def lift_def fails_def)

lemma never_start_manager_unbound: "never P (start_manager None val_list rank)"
  by (simp add: start_manager_def never_simps)

lemma never_load_algo_unbound: "never P (load_algo None restore)"
  by (simp add: load_algo_def never_simps split: option.splits)

lemma algo_phase_other_mode:
  assumes "td_mode args \<notin> set mode_choices"
  shows "fails (algo_phase args env opt train_list val_list restore)"
    and "never (\<lambda>ev. is_algo ev \<or> is_manager ev \<or> is_training ev)
           (algo_phase args env opt train_list val_list restore)"
proof -
  show "fails (algo_phase args env opt train_list val_list restore)"
    unfolding algo_phase_def make_algo_other_mode [OF assms]
    by (intro fails_and_then) (simp add: snd_lift fails_start_manager_unbound)
  show "never (\<lambda>ev. is_algo ev \<or> is_manager ev \<or> is_training ev)
           (algo_phase args env opt train_list val_list restore)"
    unfolding algo_phase_def make_algo_other_mode [OF assms]
    by (intro never_and_then)
      (simp_all add: never_simps never_start_manager_unbound never_load_algo_unbound)
qed

lemma never_algo_torch_builder:
  "never (\<lambda>ev. is_algo ev \<or> is_manager ev \<or> is_training ev) (torch_builder args device m w)"
  unfolding torch_builder_def
  by (intro never_and_then) (simp_all add: never_simps)

lemma never_algo_tf_builder:
  "never (\<lambda>ev. is_algo ev \<or> is_manager ev \<or> is_training ev) (tf_builder args device m w)"
  unfolding tf_builder_def
  by (intro never_and_then) (simp_all add: never_simps)

lemma td_run_other_mode:
  assumes "td_mode args \<notin> set mode_choices"
  shows "fails (td_run args env)"
    and "never (\<lambda>ev. is_algo ev \<or> is_manager ev \<or> is_training ev) (td_run args env)"
proof -
  show "fails (td_run args env)"
    unfolding td_run_def
    by (auto intro!: fails_and_then algo_phase_other_mode(1) [OF assms] simp: split_beta)
  show "never (\<lambda>ev. is_algo ev \<or> is_manager ev \<or> is_training ev) (td_run args env)"
    unfolding td_run_def
    by (auto intro!: never_and_then algo_phase_other_mode(2) [OF assms]
        never_algo_torch_builder never_algo_tf_builder
        simp: never_simps split_beta)
qed

text \<open>
  Claim C5. A mode outside \<open>sgd\<close>, \<open>easgd\<close>, \<open>gem\<close> ends the driver in
  \<open>parse_args\<close>, with exit status 2 and before any library call. The code after the
  parser is closed against such a mode as well: run on it, it binds no \<open>algo\<close>, so it
  ends in an exception and never constructs or loads an \<open>Algo\<close>, never creates the
  manager and never starts the training.
\<close>

theorem unsupported_mode_is_fatal:
  assumes "td_mode given \<notin> set mode_choices"
  shows "td_main given env = ([], Inl (SystemExit 2))
       \<and> fails (td_run given env)
       \<and> never (\<lambda>ev. is_algo ev \<or> is_manager ev \<or> is_training ev) (td_run given env)"
proof -
  have "parse_args given = Inl (SystemExit 2)"
    using assms by (simp add: parse_args_def)
  then have "td_main given env = ([], Inl (SystemExit 2))"
    by (simp add: td_main_def and_then_lift_Inl)
  then show ?thesis
    using td_run_other_mode [OF assms] by simp
qed

theorem unsupported_mode_is_fatal_witness:
  "td_mode (td_sample\<lparr>td_mode := ''adam''\<rparr>) \<notin> set mode_choices
   \<and> td_main (td_sample\<lparr>td_mode := ''adam''\<rparr>) td_sample_env = ([], Inl (SystemExit 2))
   \<and> fails (td_run (td_sample\<lparr>td_mode := ''adam''\<rparr>) td_sample_env)
   \<and> never (\<lambda>ev. is_algo ev \<or> is_manager ev \<or> is_training ev)
        (td_run (td_sample\<lparr>td_mode := ''adam''\<rparr>) td_sample_env)"
  using unsupported_mode_is_fatal [of "td_sample\<lparr>td_mode := ''adam''\<rparr>" td_sample_env]
  by (simp add: td_sample_def mode_choices_def)

subsection \<open>The identifier that is restored\<close>

lemma load_in_torch_builder:
  "Algo_load ident \<notin> set (fst (torch_builder args device m w))"
  by (simp add: torch_builder_def in_run_simps)

lemma load_in_tf_builder:
  "Algo_load ident \<notin> set (fst (tf_builder args device m w))"
  by (simp add: tf_builder_def in_run_simps)

lemma load_in_algo_phase:
  assumes "Algo_load ident \<in> set (fst (algo_phase args env opt train_list val_list restore))"
  shows "restore = Some ident \<and> ident \<noteq> []"
  using assms
  by (auto simp: algo_phase_def load_algo_def start_manager_def in_run_simps
      split: option.splits if_splits)

lemma load_in_td_run:
  assumes "Algo_load ident \<in> set (fst (td_run args env))"
  shows "\<exists>use_torch model_weights.
           restore_block args env use_torch = Inr (Some ident, model_weights) \<and> ident \<noteq> []"
  using assms
  by (auto simp: td_run_def in_run_simps load_in_torch_builder load_in_tf_builder
      split: if_splits dest!: load_in_algo_phase)

lemma restore_block_resolved:
  assumes "restore_block args env use_torch = Inr (Some ident, model_weights)"
    and "ident \<noteq> []"
  shows "\<exists>given. td_restore args = Some given \<and> given \<noteq> []
           \<and> resolve_restore env given = Inr ident"
  using assms
  by (auto simp: restore_block_def split: option.splits if_splits sum.splits)

lemma resolve_restore_cases:
  "resolve_restore env given =
     (case env_files env (re_sub_algo given @ ''.latest'') of
        None \<Rightarrow> Inr (re_sub_algo given)
      | Some text \<Rightarrow>
          if py_splitlines text = [] then Inl IndexError
          else Inr (last (py_splitlines text)))"
  by (simp add: resolve_restore_def split: option.splits list.splits)

lemma re_sub_algo_suffix: "re_sub_algo (path @ ''.algo'') = path"
  by (simp add: re_sub_algo_def suffix_def)

text \<open>
  Claim C9. Whenever the driver calls \<open>algo.load\<close>, \<open>--restore\<close> was given and not
  empty, and the identifier it passes is found from the stripped path, the given path
  after the substitution has removed \<open>.algo\<close>, as follows: when the file named by
  the stripped path and \<open>.latest\<close> exists, the identifier is the last line of that
  file; when it does not exist, the identifier is the stripped path itself. The
  substitution removes \<open>.algo\<close> from the end of a path and leaves alone a path that
  ends neither in \<open>.algo\<close> nor in \<open>.algo\<close> and a newline.
\<close>

theorem restore_identifier:
  assumes "Algo_load ident \<in> set (fst (td_run args env))"
  shows "(\<exists>given. td_restore args = Some given \<and> given \<noteq> []
            \<and> (case env_files env (re_sub_algo given @ ''.latest'') of
                  None \<Rightarrow> ident = re_sub_algo given
                | Some text \<Rightarrow> py_splitlines text \<noteq> [] \<and> ident = last (py_splitlines text)))
       \<and> re_sub_algo (path @ ''.algo'') = path
       \<and> (\<not> suffix ''.algo'' path \<and> \<not> suffix (''.algo'' @ [CHR 0x0A]) path \<longrightarrow>
            re_sub_algo path = path)"
proof -
  obtain use_torch model_weights
    where "restore_block args env use_torch = Inr (Some ident, model_weights)"
      and "ident \<noteq> []"
    using load_in_td_run [OF assms] by blast
  then obtain given
    where g: "td_restore args = Some given" "given \<noteq> []"
      and r: "resolve_restore env given = Inr ident"
    using restore_block_resolved by blast
  have "case env_files env (re_sub_algo given @ ''.latest'') of
          None \<Rightarrow> ident = re_sub_algo given
        | Some text \<Rightarrow> py_splitlines text \<noteq> [] \<and> ident = last (py_splitlines text)"
    using r unfolding resolve_restore_cases
    by (auto split: option.splits if_splits)
  then have first: "\<exists>given. td_restore args = Some given \<and> given \<noteq> []
            \<and> (case env_files env (re_sub_algo given @ ''.latest'') of
                  None \<Rightarrow> ident = re_sub_algo given
                | Some text \<Rightarrow> py_splitlines text \<noteq> [] \<and> ident = last (py_splitlines text))"
    using g by blast
  have "\<not> suffix ''.algo'' path \<and> \<not> suffix (''.algo'' @ [CHR 0x0A]) path \<longrightarrow>
            re_sub_algo path = path"
    by (simp add: re_sub_algo_def)
  then show ?thesis
    using first re_sub_algo_suffix [of path] by blast
qed

theorem restore_identifier_witness:
  "Algo_load ''ck-10'' \<in> set (fst (td_run td_sample td_sample_env))
   \<and> td_restore td_sample = Some ''ck.algo''
   \<and> re_sub_algo ''ck.algo'' = ''ck''
   \<and> \<not> suffix ''.algo'' ''ck'' \<and> \<not> suffix (''.algo'' @ [CHR 0x0A]) ''ck''
   \<and> re_sub_algo ''ck'' = ''ck''
   \<and> env_files td_sample_env ''ck.latest''
       = Some (''ck-5'' @ [CHR 0x0A] @ ''ck-10'' @ [CHR 0x0A])
   \<and> last (py_splitlines (''ck-5'' @ [CHR 0x0A] @ ''ck-10'' @ [CHR 0x0A])) = ''ck-10''
   \<and> Algo_load ''other''
        \<in> set (fst (td_run (td_sample\<lparr>td_restore := Some ''other.algo''\<rparr>) td_sample_env))
   \<and> env_files td_sample_env ''other.latest'' = None"
proof -
  have one: "Algo_load ''ck-10'' \<in> set (fst (td_run td_sample td_sample_env))"
    by (simp add: sample_run)
  have two: "Algo_load ''other''
        \<in> set (fst (td_run (td_sample\<lparr>td_restore := Some ''other.algo''\<rparr>) td_sample_env))"
    by (simp add: td_eval)
  show ?thesis
    using one two restore_identifier [OF one, of "''ck''"] restore_identifier [OF two, of "''other''"]
    by (simp add: td_sample_def td_sample_env_def sample_files_def re_sub_algo_def
        suffix_to_prefix py_splitlines_def py_linebreak_def)
qed

subsection \<open>Restoring when the weight snapshot is missing\<close>

lemma restore_weights_keras: "restore_weights env False restore = Inr None"
  by (simp add: restore_weights_def)

lemma restore_weights_torch_missing:
  assumes "env_files env (restore @ ''.model'') = None"
  shows "restore_weights env True restore = Inl TypeError"
  using assms by (simp add: restore_weights_def)

lemma td_run_restore_fails:
  assumes "select_backend args = Inr a_backend"
    and "restore_block args env (a_backend \<noteq> ''keras'') = Inl e"
  shows "fails (td_run args env)"
    and "never (\<lambda>ev. is_builder ev \<or> is_algo ev \<or> is_manager ev \<or> is_training ev)
           (td_run args env)"
proof -
  show "fails (td_run args env)"
    unfolding td_run_def
    using assms
    by (auto intro!: fails_and_then simp: and_then_lift_Inr and_then_lift_Inl fails_Inl)
  show "never (\<lambda>ev. is_builder ev \<or> is_algo ev \<or> is_manager ev \<or> is_training ev)
           (td_run args env)"
    unfolding td_run_def
    using assms
    by (auto intro!: never_and_then
        simp: and_then_lift_Inr and_then_lift_Inl never_nil never_simps)
qed

text \<open>
  Claim C4, as the code has it. Let \<open>--restore\<close> be given and resolve to an identifier
  whose weight snapshot, the file \<open>identifier.model\<close>, is missing. With the torch
  backend the restoring block ends in a \<open>TypeError\<close>, so the run fails without having
  produced a model builder, touched the algorithm object, created the manager or
  started the training. With the keras backend the restoring block does not look for
  the snapshot: it leaves \<open>model_weights\<close> at \<open>None\<close> and raises nothing.
\<close>

theorem restore_without_weights:
  assumes "td_restore args = Some given" and "given \<noteq> []"
    and "resolve_restore env given = Inr ident"
    and "env_files env (ident @ ''.model'') = None"
  shows "restore_block args env True = Inl TypeError
       \<and> restore_block args env False = Inr (Some ident, None)
       \<and> (select_backend args = Inr a_backend \<and> a_backend \<noteq> ''keras'' \<longrightarrow>
            fails (td_run args env)
            \<and> never (\<lambda>ev. is_builder ev \<or> is_algo ev \<or> is_manager ev \<or> is_training ev)
                 (td_run args env))"
proof -
  have torch: "restore_block args env True = Inl TypeError"
    using assms by (simp add: restore_block_def restore_weights_torch_missing)
  have keras: "restore_block args env False = Inr (Some ident, None)"
    using assms by (simp add: restore_block_def restore_weights_keras)
  have "fails (td_run args env)
        \<and> never (\<lambda>ev. is_builder ev \<or> is_algo ev \<or> is_manager ev \<or> is_training ev)
             (td_run args env)"
    if "select_backend args = Inr a_backend" and "a_backend \<noteq> ''keras''"
    using td_run_restore_fails [of args a_backend env TypeError] that torch by simp
  then show ?thesis
    using torch keras by blast
qed

theorem restore_without_weights_witness:
  "td_restore td_sample = Some ''ck.algo'' \<and> ''ck.algo'' \<noteq> []
   \<and> resolve_restore td_sample_env ''ck.algo'' = Inr ''ck-10''
   \<and> env_files td_sample_env (''ck-10'' @ ''.model'') = None
   \<and> restore_block td_sample td_sample_env True = Inl TypeError
   \<and> restore_block td_sample td_sample_env False = Inr (Some ''ck-10'', None)
   \<and> select_backend (td_sample\<lparr>td_backend := ''torch''\<rparr>) = Inr ''torch''
   \<and> fails (td_run (td_sample\<lparr>td_backend := ''torch''\<rparr>) td_sample_env)
   \<and> never (\<lambda>ev. is_builder ev \<or> is_algo ev \<or> is_manager ev \<or> is_training ev)
        (td_run (td_sample\<lparr>td_backend := ''torch''\<rparr>) td_sample_env)"
proof -
  have r: "resolve_restore td_sample_env ''ck.algo'' = Inr ''ck-10''"
    by (simp add: td_eval)
  have m: "env_files td_sample_env (''ck-10'' @ ''.model'') = None"
    by (simp add: td_sample_env_def sample_files_def)
  have s: "select_backend (td_sample\<lparr>td_backend := ''torch''\<rparr>) = Inr ''torch''"
    by (simp add: td_sample_def select_backend_def)
  show ?thesis
    using r m s
      restore_without_weights [of td_sample "''ck.algo''" td_sample_env "''ck-10''" "''torch''"]
      restore_without_weights [of "td_sample\<lparr>td_backend := ''torch''\<rparr>" "''ck.algo''"
        td_sample_env "''ck-10''" "''torch''"]
    by (simp add: td_sample_def)
qed

text \<open>
  The claim as stated fails for the keras backend: on the sample command line, whose
  pointer file names \<open>ck-10\<close> and whose snapshot \<open>ck-10.model\<close> is missing, the driver
  builds the TensorFlow model with no weights and goes on to train.
\<close>

theorem keras_restore_builds_without_weights:
  "td_restore td_sample = Some ''ck.algo''
   \<and> resolve_restore td_sample_env ''ck.algo'' = Inr ''ck-10''
   \<and> env_files td_sample_env ''ck-10.model'' = None
   \<and> select_backend td_sample = Inr ''keras''
   \<and> td_main td_sample td_sample_env =
       ([Comm_Dup, Get_device, Setenv ''CUDA_VISIBLE_DEVICES'' ''0'',
         Setenv ''KERAS_BACKEND'' ''tensorflow'', Keras_session,
         ModelTensorFlow_init (Some ''model.json'') ''gpu0'' None, H5Data_init 100,
         Algo_init
           \<lparr> algo_optimizer = None, algo_loss = ''binary_crossentropy'',
             algo_validate_every = PyInt 2, algo_mode = Some ''easgd'',
             algo_sync_every = 1, algo_worker_optimizer = Some ''sgd'',
             algo_worker_optimizer_params = Some ''{}'',
             algo_elastic_force = Some (3 / 10), algo_elastic_lr = Some 1,
             algo_elastic_momentum = Some 0, algo_learning_rate = None,
             algo_momentum = None, algo_kappa = None \<rparr>,
         Algo_load ''ck-10'', MPIManager_init, Train],
        Inr ())"
proof -
  have "parse_args td_sample = Inr td_sample"
    by (simp add: parse_args_def td_sample_def backend_choices_def mode_choices_def)
  then have "td_main td_sample td_sample_env = td_run td_sample td_sample_env"
    by (simp add: td_main_def and_then_lift_Inr)
  moreover have "resolve_restore td_sample_env ''ck.algo'' = Inr ''ck-10''"
    by (simp add: td_eval)
  moreover have "env_files td_sample_env ''ck-10.model'' = None"
    by (simp add: td_sample_env_def sample_files_def)
  moreover have "select_backend td_sample = Inr ''keras''"
    by (simp add: td_sample_def select_backend_def)
  moreover have "td_restore td_sample = Some ''ck.algo''"
    by (simp add: td_sample_def)
  ultimately show ?thesis
    by (simp add: sample_run)
qed

subsection \<open>Choosing the model builder\<close>

lemma probe_builder_module: "probe_builder (Some m) = Inl (NameError ''hasttar'')"
  by (simp add: probe_builder_def)

text \<open>
  Claim C3. For a model given as a \<open>.py\<close> file the import yields a module, and the
  probe of that module for a builder raises \<open>NameError\<close> for every module: the name
  called is \<open>hasttar\<close>, which nothing binds. In either backend branch the run ends
  there, after the device has been hidden and before any model builder, the module's or
  the framework's, has been chosen. On the sample command line with the model
  \<open>model.py\<close>, whose module does have a \<open>builder\<close>, the driver ends so.
\<close>

theorem builder_probe_raises:
  "probe_builder (Some m) = Inl (NameError ''hasttar'')
   \<and> torch_builder args device (Some m) model_weights =
       ([Setenv ''CUDA_VISIBLE_DEVICES'' (visible_device device)],
        Inl (NameError ''hasttar''))
   \<and> tf_builder args device (Some m) model_weights =
       ([Setenv ''CUDA_VISIBLE_DEVICES'' (visible_device device),
         Setenv ''KERAS_BACKEND'' ''tensorflow'', Keras_session],
        Inl (NameError ''hasttar''))
   \<and> import_model (td_sample\<lparr>td_model := Some ''model.py''\<rparr>) td_sample_env
       = Inr (Some sample_module)
   \<and> mod_has_builder sample_module
   \<and> td_main (td_sample\<lparr>td_model := Some ''model.py''\<rparr>) td_sample_env =
       ([Comm_Dup, Get_device, Setenv ''CUDA_VISIBLE_DEVICES'' ''0'',
         Setenv ''KERAS_BACKEND'' ''tensorflow'', Keras_session],
        Inl (NameError ''hasttar''))"
proof -
  have "parse_args (td_sample\<lparr>td_model := Some ''model.py''\<rparr>)
          = Inr (td_sample\<lparr>td_model := Some ''model.py''\<rparr>)"
    by (simp add: parse_args_def td_sample_def backend_choices_def mode_choices_def)
  then have "td_main (td_sample\<lparr>td_model := Some ''model.py''\<rparr>) td_sample_env
      = td_run (td_sample\<lparr>td_model := Some ''model.py''\<rparr>) td_sample_env"
    by (simp add: td_main_def and_then_lift_Inr)
  moreover have "td_run (td_sample\<lparr>td_model := Some ''model.py''\<rparr>) td_sample_env =
       ([Comm_Dup, Get_device, Setenv ''CUDA_VISIBLE_DEVICES'' ''0'',
         Setenv ''KERAS_BACKEND'' ''tensorflow'', Keras_session],
        Inl (NameError ''hasttar''))"
    by (simp add: td_eval)
  moreover have "import_model (td_sample\<lparr>td_model := Some ''model.py''\<rparr>) td_sample_env
       = Inr (Some sample_module)"
    by (simp add: td_sample_def td_sample_env_def import_model_def)
  moreover have "torch_builder args device (Some m) model_weights =
       ([Setenv ''CUDA_VISIBLE_DEVICES'' (visible_device device)],
        Inl (NameError ''hasttar''))"
    by (simp add: torch_builder_def probe_builder_def run_defs)
  moreover have "tf_builder args device (Some m) model_weights =
       ([Setenv ''CUDA_VISIBLE_DEVICES'' (visible_device device),
         Setenv ''KERAS_BACKEND'' ''tensorflow'', Keras_session],
        Inl (NameError ''hasttar''))"
    by (simp add: tf_builder_def probe_builder_def run_defs)
  ultimately show ?thesis
    by (simp add: probe_builder_module sample_module_def)
qed

subsection \<open>The elastic force of one process\<close>


lemma easgd_single_process: "easgd_elastic_force elastic_force 1 = Inl ZeroDivisionError"
  by (simp add: easgd_elastic_force_def)





end
